theory Spec2Isabelle
  imports Complex_Main
begin

section \<open>The chat relay worker (apps/chat-worker/src/index.ts)\<close>

text \<open>
  The worker has one route handler, \<^verbatim>\<open>app.post('/api/chat', async (c) => ...)\<close>.
  It is embedded as a function from the outcomes of the platform calls it makes during
  one request to its result (a response, or a value thrown out of the handler) together
  with the list of platform calls it made, in order.
\<close>

subsection \<open>JavaScript values\<close>

text \<open>
  The handler inspects values whose shape is only known at run time (the decoded request
  body, the value caught by \<^verbatim>\<open>catch (err: any)\<close>). A number is a finite rational or
  one of the three special doubles; \<open>-0\<close> is identified with \<open>0\<close> (both are falsy).
  A \<^verbatim>\<open>bigint\<close> is an integer of its own type. An object is the list of its properties,
  the first binding of a key being the one that a property read sees. Values are finite
  trees, so an object that contains itself is not among them. A function value carries what a call of it settles to once
  awaited: \<open>Inl v\<close> when the call throws or rejects with \<open>v\<close>, \<open>Inr v\<close> when it yields
  \<open>v\<close>. The only call of such a value in the source is \<^verbatim>\<open>err.response.text()\<close>.
\<close>

datatype jsnum = Finite rat | NaN | Infinity | NegInfinity

datatype jsval =
    JUndefined
  | JNull
  | JBool bool
  | JNum jsnum
  | JBigInt int
  | JStr string
  | JArr "jsval list"
  | JObj "(string \<times> jsval) list"
  | JFun "jsval + jsval"

text \<open>\<^verbatim>\<open>!v\<close> is \<open>\<not> truthy v\<close>: the falsy values are \<^verbatim>\<open>undefined\<close>, \<^verbatim>\<open>null\<close>,
  \<^verbatim>\<open>false\<close>, \<^verbatim>\<open>0\<close>, \<^verbatim>\<open>NaN\<close>, \<^verbatim>\<open>0n\<close> and the empty string.\<close>

fun truthy :: "jsval \<Rightarrow> bool" where
  "truthy JUndefined = False"
| "truthy JNull = False"
| "truthy (JBool b) = b"
| "truthy (JNum (Finite q)) = (q \<noteq> 0)"
| "truthy (JNum NaN) = False"
| "truthy (JNum Infinity) = True"
| "truthy (JNum NegInfinity) = True"
| "truthy (JBigInt n) = (n \<noteq> 0)"
| "truthy (JStr s) = (s \<noteq> [])"
| "truthy (JArr xs) = True"
| "truthy (JObj kvs) = True"
| "truthy (JFun f) = True"

fun nullish :: "jsval \<Rightarrow> bool" where
  "nullish JUndefined = True"
| "nullish JNull = True"
| "nullish v = False"

text \<open>\<^verbatim>\<open>typeof v\<close>.\<close>

fun typeof_js :: "jsval \<Rightarrow> string" where
  "typeof_js JUndefined = ''undefined''"
| "typeof_js JNull = ''object''"
| "typeof_js (JBool b) = ''boolean''"
| "typeof_js (JNum n) = ''number''"
| "typeof_js (JBigInt n) = ''bigint''"
| "typeof_js (JStr s) = ''string''"
| "typeof_js (JArr xs) = ''object''"
| "typeof_js (JObj kvs) = ''object''"
| "typeof_js (JFun f) = ''function''"

text \<open>
  \<^verbatim>\<open>v.k\<close> for a value \<open>v\<close> that is neither \<^verbatim>\<open>null\<close> nor \<^verbatim>\<open>undefined\<close>, and for
  the keys the handler reads (\<^verbatim>\<open>prompt\<close>, \<^verbatim>\<open>status\<close>, \<^verbatim>\<open>response\<close>, \<^verbatim>\<open>text\<close>,
  \<^verbatim>\<open>message\<close>): an object yields the property or \<^verbatim>\<open>undefined\<close>; booleans, numbers,
  bigints, strings, arrays and functions have none of these keys.
\<close>

fun get_prop :: "jsval \<Rightarrow> string \<Rightarrow> jsval" where
  "get_prop (JObj kvs) k = (case map_of kvs k of None \<Rightarrow> JUndefined | Some v \<Rightarrow> v)"
| "get_prop v k = JUndefined"

text \<open>\<^verbatim>\<open>v?.k\<close>: \<^verbatim>\<open>undefined\<close> when \<open>v\<close> is nullish, the property read otherwise.\<close>

definition opt_prop :: "jsval \<Rightarrow> string \<Rightarrow> jsval" where
  "opt_prop v k = (if nullish v then JUndefined else get_prop v k)"

text \<open>\<^verbatim>\<open>a ?? b\<close>.\<close>

definition nullish_coalesce :: "jsval \<Rightarrow> jsval \<Rightarrow> jsval" where
  "nullish_coalesce a b = (if nullish a then b else a)"

subsection \<open>Results, platform calls and the environment of one request\<close>

text \<open>
  What can leave the handler as an exception: a value thrown by a platform call, or the
  \<^verbatim>\<open>TypeError\<close> the language raises when \<^verbatim>\<open>const { prompt } = v\<close> destructures
  \<^verbatim>\<open>null\<close> or \<^verbatim>\<open>undefined\<close>.
\<close>

datatype thrown = Thrown jsval | TypeError

text \<open>
  The two ways the handler builds a response: \<^verbatim>\<open>c.json(obj, status)\<close>, where the
  framework has serialised \<open>obj\<close> (a call without a status answers 200), and
  \<^verbatim>\<open>new Response(body, { status, headers })\<close>.
\<close>

datatype response =
    Json jsval nat
  | Raw jsval jsval "(string \<times> string) list"

text \<open>
  \<^verbatim>\<open>c.json(obj, status)\<close> runs \<^verbatim>\<open>JSON.stringify(obj)\<close>, which throws a
  \<^verbatim>\<open>TypeError\<close> when it meets a \<^verbatim>\<open>bigint\<close> in \<open>obj\<close>, in an element of an
  array or in the value of a property, at any depth. Functions and \<^verbatim>\<open>undefined\<close>
  are left out or written as \<^verbatim>\<open>null\<close>, and are not looked into.
\<close>

fun serialisable :: "jsval \<Rightarrow> bool" where
  "serialisable (JBigInt n) = False"
| "serialisable (JArr []) = True"
| "serialisable (JArr (x # xs)) = (serialisable x \<and> serialisable (JArr xs))"
| "serialisable (JObj []) = True"
| "serialisable (JObj ((k, v) # kvs)) = (serialisable v \<and> serialisable (JObj kvs))"
| "serialisable v = True"

text \<open>The error object \<^verbatim>\<open>JSON.stringify\<close> throws, with the engine's message.\<close>

definition serialise_error :: jsval where
  "serialise_error =
     JObj [(''name'', JStr ''TypeError''),
           (''message'', JStr ''Do not know how to serialize a BigInt'')]"

text \<open>\<^verbatim>\<open>c.json(obj, status)\<close>: \<open>Inl v\<close> when the call throws \<open>v\<close>.\<close>

definition c_json :: "jsval \<Rightarrow> nat \<Rightarrow> jsval + response" where
  "c_json obj status = (if serialisable obj then Inr (Json obj status) else Inl serialise_error)"

text \<open>A call that stands outside every \<^verbatim>\<open>try\<close>: what it throws leaves the handler.\<close>

definition uncaught :: "jsval + response \<Rightarrow> thrown + response" where
  "uncaught r = (case r of Inl v \<Rightarrow> Inl (Thrown v) | Inr resp \<Rightarrow> Inr resp)"

record client =
  apiKey :: string
  baseURL :: string
  defaultHeaders :: "(string \<times> string) list"

record message =
  role :: string
  content :: jsval

record chat_request =
  model :: string
  messages :: "message list"

datatype call =
    GatewayGetUrl string
  | CompletionsCreate client chat_request
  | ResponseText
  | ConsoleError jsval

text \<open>
  The bindings \<^verbatim>\<open>c.env\<close> and the outcome of each platform call of one request.
  \<open>Inl v\<close> is a call that throws or rejects with \<open>v\<close>. \<open>Response_accepts body status\<close>
  tells whether the platform's \<^verbatim>\<open>Response\<close> constructor builds a response from that
  body and status or throws instead (it rejects a status outside its range).
\<close>

record env =
  AI_GATEWAY_ID :: string
  AI_GATEWAY_TOKEN :: string
  req_json :: "jsval + jsval"
  getUrl :: "string \<Rightarrow> jsval + string"
  create :: "client \<Rightarrow> chat_request \<Rightarrow> jsval + jsval"
  Response_accepts :: "jsval \<Rightarrow> jsval \<Rightarrow> bool"

subsection \<open>The handler\<close>

text \<open>Line 78, \<^verbatim>\<open>const { prompt } = body\<close>.\<close>

definition destructure_prompt :: "jsval \<Rightarrow> thrown + jsval" where
  "destructure_prompt body = (if nullish body then Inl TypeError else Inr (get_prop body ''prompt''))"

text \<open>Lines 93 to 99, \<^verbatim>\<open>new OpenAI({ apiKey, baseURL, defaultHeaders })\<close>.\<close>

definition mk_client :: "env \<Rightarrow> string \<Rightarrow> client" where
  "mk_client e baseUrl =
     \<lparr>apiKey = ''unused'',
      baseURL = baseUrl,
      defaultHeaders = [(''cf-aig-authorization'', ''Bearer '' @ AI_GATEWAY_TOKEN e)]\<rparr>"

text \<open>Lines 101 to 104, the argument of \<^verbatim>\<open>client.chat.completions.create\<close>.\<close>

definition mk_request :: "jsval \<Rightarrow> chat_request" where
  "mk_request prompt =
     \<lparr>model = ''google-ai-studio/gemini-2.5'',
      messages = [\<lparr>role = ''user'', content = prompt\<rparr>]\<rparr>"

text \<open>
  Lines 92 to 104, the body of the outer \<^verbatim>\<open>try\<close> up to the completion: \<open>Inl err\<close>
  is the value the \<^verbatim>\<open>catch\<close> receives, \<open>Inr completion\<close> what the upstream returned.
  \<open>CompletionsCreate\<close> is one call of the SDK method; the HTTP requests the SDK makes
  for it are inside that call.
\<close>

definition try_body :: "env \<Rightarrow> jsval \<Rightarrow> (jsval + jsval) \<times> call list" where
  "try_body e prompt =
     (case getUrl e (AI_GATEWAY_ID e) of
        Inl err \<Rightarrow> (Inl err, [GatewayGetUrl (AI_GATEWAY_ID e)])
      | Inr url \<Rightarrow>
          (let baseUrl = url @ ''/compat'';
               cl = mk_client e baseUrl;
               rq = mk_request prompt
           in (create e cl rq, [GatewayGetUrl (AI_GATEWAY_ID e), CompletionsCreate cl rq])))"

text \<open>Line 109, \<^verbatim>\<open>err?.status ?? err?.response?.status ?? 502\<close>.\<close>

definition determine_status :: "jsval \<Rightarrow> jsval" where
  "determine_status err =
     nullish_coalesce
       (nullish_coalesce (opt_prop err ''status'') (opt_prop (opt_prop err ''response'') ''status''))
       (JNum (Finite 502))"

text \<open>Line 110, \<^verbatim>\<open>typeof err?.response?.text === 'function'\<close>.\<close>

definition isResponse :: "jsval \<Rightarrow> bool" where
  "isResponse err = (typeof_js (opt_prop (opt_prop err ''response'') ''text'') = ''function'')"

text \<open>
  Lines 119 and 120, reached when the inner \<^verbatim>\<open>try\<close> did not return. They stand
  outside every \<^verbatim>\<open>try\<close>: when \<^verbatim>\<open>c.json\<close> throws here, the handler throws.
\<close>

definition fallback :: "jsval \<Rightarrow> (thrown + response) \<times> call list" where
  "fallback err =
     (uncaught
        (c_json
           (JObj [(''error'', nullish_coalesce (opt_prop err ''message'') (JStr ''Upstream error''))])
           502),
      [ConsoleError err])"

text \<open>
  Lines 106 to 121, the \<^verbatim>\<open>catch (err: any)\<close> block. Whatever the inner \<^verbatim>\<open>try\<close>
  throws (the call of \<^verbatim>\<open>text\<close>, the \<^verbatim>\<open>Response\<close> constructor) is dropped by the
  empty inner \<^verbatim>\<open>catch\<close>, and control goes on to line 119.
\<close>

definition catch_block :: "env \<Rightarrow> jsval \<Rightarrow> (thrown + response) \<times> call list" where
  "catch_block e err =
     (let status = determine_status err in
      if isResponse err then
        (case opt_prop (opt_prop err ''response'') ''text'' of
           JFun (Inr text) \<Rightarrow>
             if Response_accepts e text status
             then (Inr (Raw text status [(''content-type'', ''application/json'')]), [ResponseText])
             else (fst (fallback err), ResponseText # snd (fallback err))
         | _ \<Rightarrow> (fst (fallback err), ResponseText # snd (fallback err)))
      else fallback err)"

text \<open>
  Lines 92 to 105, the whole outer \<^verbatim>\<open>try\<close>: \<^verbatim>\<open>return c.json(completion)\<close> is
  inside it, so what that call throws goes to the \<^verbatim>\<open>catch\<close> as well.
\<close>

definition try_block :: "env \<Rightarrow> jsval \<Rightarrow> (jsval + response) \<times> call list" where
  "try_block e prompt =
     (case try_body e prompt of
        (Inl err, tr) \<Rightarrow> (Inl err, tr)
      | (Inr completion, tr) \<Rightarrow> (c_json completion 200, tr))"

text \<open>Lines 68 to 122.\<close>

definition handler :: "env \<Rightarrow> (thrown + response) \<times> call list" where
  "handler e =
     (case req_json e of
        Inl x \<Rightarrow> (Inl (Thrown x), [])
      | Inr body \<Rightarrow>
          (case destructure_prompt body of
             Inl t \<Rightarrow> (Inl t, [])
           | Inr prompt \<Rightarrow>
               if \<not> truthy prompt
               then (uncaught (c_json (JObj [(''error'', JStr ''No prompt provided'')]) 400), [])
               else
                 (case try_block e prompt of
                    (Inr resp, tr) \<Rightarrow> (Inr resp, tr)
                  | (Inl err, tr) \<Rightarrow>
                      (fst (catch_block e err), tr @ snd (catch_block e err)))))"

subsection \<open>Example environments\<close>

text \<open>
  An instance of the constructor's check for the examples: a number status is accepted
  when it is integral and lies in 200 to 599. Nothing below depends on this choice
  except the worked examples.
\<close>

definition example_accepts :: "jsval \<Rightarrow> jsval \<Rightarrow> bool" where
  "example_accepts body status =
     (case status of
        JNum (Finite q) \<Rightarrow> q = of_int \<lfloor>q\<rfloor> \<and> 200 \<le> q \<and> q \<le> 599
      | _ \<Rightarrow> False)"

text \<open>A request \<^verbatim>\<open>{"prompt": "hi"}\<close> against an upstream that answers.\<close>

definition example_env :: env where
  "example_env =
     \<lparr>AI_GATEWAY_ID = ''gw'',
      AI_GATEWAY_TOKEN = ''tok'',
      req_json = Inr (JObj [(''prompt'', JStr ''hi'')]),
      getUrl = (\<lambda>g. Inr (''https://gateway.test/'' @ g)),
      create = (\<lambda>cl rq. Inr (JObj [(''model'', JStr (model rq))])),
      Response_accepts = example_accepts\<rparr>"

text \<open>The same request with a body of \<^verbatim>\<open>{}\<close>, of \<^verbatim>\<open>null\<close>, and with a prompt of 42.\<close>

definition missing_prompt_env :: env where
  "missing_prompt_env = example_env\<lparr>req_json := Inr (JObj [])\<rparr>"


definition numeric_prompt_env :: env where
  "numeric_prompt_env = example_env\<lparr>req_json := Inr (JObj [(''prompt'', JNum (Finite 42))])\<rparr>"






















subsection \<open>Counting platform calls\<close>

fun is_getUrl :: "call \<Rightarrow> bool" where
  "is_getUrl (GatewayGetUrl g) = True"
| "is_getUrl c = False"

fun is_create :: "call \<Rightarrow> bool" where
  "is_create (CompletionsCreate cl rq) = True"
| "is_create c = False"

fun is_text :: "call \<Rightarrow> bool" where
  "is_text ResponseText = True"
| "is_text c = False"

section \<open>Properties\<close>

subsection \<open>Values\<close>

lemma missing_empty_null_falsy:
  "\<not> truthy (get_prop (JObj []) ''prompt'')" "\<not> truthy (JStr [])" "\<not> truthy JNull"
  by simp_all


subsection \<open>The two halves of the outer try\<close>

lemma handler_valid:
  assumes "req_json e = Inr body" and "destructure_prompt body = Inr p" and "truthy p"
  shows "handler e =
     (case try_block e p of
        (Inr resp, tr) \<Rightarrow> (Inr resp, tr)
      | (Inl err, tr) \<Rightarrow> (fst (catch_block e err), tr @ snd (catch_block e err)))"
  using assms by (simp add: handler_def)

lemma serialisable_envelope: "serialisable (JObj [(k, v)]) = serialisable v"
  by simp

lemma c_json_cases:
  "c_json obj status = Inr (Json obj status) \<and> serialisable obj \<or>
   c_json obj status = Inl serialise_error \<and> \<not> serialisable obj"
  by (simp add: c_json_def)

lemma try_block_trace: "snd (try_block e p) = snd (try_body e p)"
  by (cases "try_body e p") (simp add: try_block_def split: sum.splits)




lemma try_body_getUrl_ok:
  "getUrl e (AI_GATEWAY_ID e) = Inr url \<Longrightarrow>
     try_body e p =
       (create e (mk_client e (url @ ''/compat'')) (mk_request p),
        [GatewayGetUrl (AI_GATEWAY_ID e),
         CompletionsCreate (mk_client e (url @ ''/compat'')) (mk_request p)])"
  by (simp add: try_body_def Let_def)

lemma try_body_trace:
  "snd (try_body e p) = [GatewayGetUrl (AI_GATEWAY_ID e)] \<or>
   (\<exists>url. getUrl e (AI_GATEWAY_ID e) = Inr url \<and>
      snd (try_body e p) = [GatewayGetUrl (AI_GATEWAY_ID e),
         CompletionsCreate (mk_client e (url @ ''/compat'')) (mk_request p)])"
  by (cases "getUrl e (AI_GATEWAY_ID e)") (simp_all add: try_body_def Let_def)









lemma catch_block_trace:
  "snd (catch_block e err) = [ResponseText] \<or> snd (catch_block e err) = [ConsoleError err]
   \<or> snd (catch_block e err) = [ResponseText, ConsoleError err]"
  by (cases "opt_prop (opt_prop err ''response'') ''text''")
     (auto simp: catch_block_def fallback_def isResponse_def Let_def split: sum.splits)

lemma catch_block_counts:
  "filter is_getUrl (snd (catch_block e err)) = []"
  "filter is_create (snd (catch_block e err)) = []"
  "length (filter is_text (snd (catch_block e err))) \<le> 1"
  using catch_block_trace [of e err] by auto

lemma catch_block_no_create: "CompletionsCreate cl rq \<notin> set (snd (catch_block e err))"
  using catch_block_trace [of e err] by auto



subsection \<open>The calls of one request\<close>

lemma handler_trace_valid:
  assumes "req_json e = Inr body" and "destructure_prompt body = Inr p" and "truthy p"
  shows "(\<exists>r. fst (handler e) = Inr r \<and> snd (handler e) = snd (try_body e p)) \<or>
         (\<exists>err. fst (handler e) = fst (catch_block e err) \<and>
            snd (handler e) = snd (try_body e p) @ snd (catch_block e err))"
  using assms try_block_trace [of e p]
  by (cases "try_block e p") (auto simp: handler_valid split: sum.splits)

lemma handler_trace_cases:
  "snd (handler e) = [] \<or>
   (\<exists>body p. req_json e = Inr body \<and> destructure_prompt body = Inr p \<and> truthy p \<and>
      (snd (handler e) = snd (try_body e p) \<or>
       (\<exists>err. snd (handler e) = snd (try_body e p) @ snd (catch_block e err))))"
proof (cases "req_json e")
  case (Inl x)
  then show ?thesis by (simp add: handler_def)
next
  case (Inr body)
  show ?thesis
  proof (cases "destructure_prompt body")
    case (Inl t)
    with Inr show ?thesis by (simp add: handler_def)
  next
    case (Inr p)
    show ?thesis
    proof (cases "truthy p")
      case True
      with \<open>req_json e = Inr body\<close> Inr handler_trace_valid [of e body p]
      show ?thesis by blast
    next
      case False
      with \<open>req_json e = Inr body\<close> Inr show ?thesis by (simp add: handler_def)
    qed
  qed
qed




subsection \<open>Facts about the example environments\<close>

lemma example_env_trace:
  "snd (handler example_env) =
      [GatewayGetUrl ''gw'',
       CompletionsCreate
         \<lparr>apiKey = ''unused'', baseURL = ''https://gateway.test/gw/compat'',
          defaultHeaders = [(''cf-aig-authorization'', ''Bearer tok'')]\<rparr>
         \<lparr>model = ''google-ai-studio/gemini-2.5'',
          messages = [\<lparr>role = ''user'', content = JStr ''hi''\<rparr>]\<rparr>]"
  by (simp add: example_env_def handler_def destructure_prompt_def
        try_block_def try_body_def c_json_def mk_client_def mk_request_def)









section \<open>The claims\<close>

subsection \<open>Validation\<close>

text \<open>
  C1. When the decoded body yields a falsy prompt (missing, the empty string, null, and
  also false, 0 and NaN), the handler answers 400 with the body
  \<^verbatim>\<open>{"error": "No prompt provided"}\<close> and makes no platform call at all: neither the
  gateway URL resolution nor the chat-completion request.
\<close>

theorem falsy_prompt_rejected:
  assumes "req_json e = Inr body" and "destructure_prompt body = Inr p" and "\<not> truthy p"
  shows "handler e = (Inr (Json (JObj [(''error'', JStr ''No prompt provided'')]) 400), [])"
  using assms by (simp add: handler_def c_json_def uncaught_def)

theorem falsy_prompt_rejected_witness:
  "req_json (example_env\<lparr>req_json := Inr (JObj [])\<rparr>) = Inr (JObj []) \<and>
   destructure_prompt (JObj []) = Inr JUndefined \<and> \<not> truthy JUndefined \<and>
   handler (example_env\<lparr>req_json := Inr (JObj [])\<rparr>)
     = (Inr (Json (JObj [(''error'', JStr ''No prompt provided'')]) 400), [])"
  using falsy_prompt_rejected [of "example_env\<lparr>req_json := Inr (JObj [])\<rparr>" "JObj []" JUndefined]
  by (simp add: destructure_prompt_def)

text \<open>
  C6, as stated, fails: the guard is \<^verbatim>\<open>!prompt\<close>, which tests falsiness and not the
  type. A body of \<^verbatim>\<open>{"prompt": 42}\<close> passes it, the chat-completion request is issued
  with the number 42 as the message content, and the handler answers 200.
\<close>

theorem non_string_prompt_counterexample:
  "handler numeric_prompt_env =
     (Inr (Json (JObj [(''model'', JStr ''google-ai-studio/gemini-2.5'')]) 200),
      [GatewayGetUrl ''gw'',
       CompletionsCreate
         \<lparr>apiKey = ''unused'', baseURL = ''https://gateway.test/gw/compat'',
          defaultHeaders = [(''cf-aig-authorization'', ''Bearer tok'')]\<rparr>
         \<lparr>model = ''google-ai-studio/gemini-2.5'',
          messages = [\<lparr>role = ''user'', content = JNum (Finite 42)\<rparr>]\<rparr>])"
  by (simp add: numeric_prompt_env_def example_env_def handler_def destructure_prompt_def
        try_block_def try_body_def c_json_def mk_client_def mk_request_def)

text \<open>
  C6, amended. Whenever the chat-completion call is attempted, the prompt taken from the
  request body is truthy (so it is not the empty string, null or undefined) and it is the
  content of the one message sent; every request whose prompt is falsy fails validation
  with 400 before any platform call.
\<close>

theorem create_only_with_truthy_prompt:
  "(CompletionsCreate cl rq \<in> set (snd (handler e)) \<longrightarrow>
      (\<exists>body p. req_json e = Inr body \<and> destructure_prompt body = Inr p \<and> truthy p \<and>
         p \<noteq> JStr [] \<and> p \<noteq> JNull \<and> p \<noteq> JUndefined \<and>
         messages rq = [\<lparr>role = ''user'', content = p\<rparr>])) \<and>
   (req_json e' = Inr body' \<and> destructure_prompt body' = Inr p' \<and> \<not> truthy p' \<longrightarrow>
      handler e' = (Inr (Json (JObj [(''error'', JStr ''No prompt provided'')]) 400), []))"
proof (intro conjI impI)
  assume a: "CompletionsCreate cl rq \<in> set (snd (handler e))"
  then have "snd (handler e) \<noteq> []" by auto
  with handler_trace_cases [of e] obtain body p where
    bp: "req_json e = Inr body" "destructure_prompt body = Inr p" "truthy p" and
    tr: "snd (handler e) = snd (try_body e p) \<or>
       (\<exists>err. snd (handler e) = snd (try_body e p) @ snd (catch_block e err))"
    by blast
  from a tr have "CompletionsCreate cl rq \<in> set (snd (try_body e p))"
    using catch_block_no_create by auto
  with try_body_trace [of e p] have "rq = mk_request p" by auto
  then have "messages rq = [\<lparr>role = ''user'', content = p\<rparr>]" by (simp add: mk_request_def)
  moreover from bp(3) have "p \<noteq> JStr []" "p \<noteq> JNull" "p \<noteq> JUndefined" by auto
  ultimately show "\<exists>body p. req_json e = Inr body \<and> destructure_prompt body = Inr p \<and> truthy p \<and>
         p \<noteq> JStr [] \<and> p \<noteq> JNull \<and> p \<noteq> JUndefined \<and>
         messages rq = [\<lparr>role = ''user'', content = p\<rparr>]"
    using bp by blast
next
  assume "req_json e' = Inr body' \<and> destructure_prompt body' = Inr p' \<and> \<not> truthy p'"
  then show "handler e' = (Inr (Json (JObj [(''error'', JStr ''No prompt provided'')]) 400), [])"
    by (simp add: handler_def c_json_def uncaught_def)
qed

theorem create_only_with_truthy_prompt_witness:
  "CompletionsCreate
         \<lparr>apiKey = ''unused'', baseURL = ''https://gateway.test/gw/compat'',
          defaultHeaders = [(''cf-aig-authorization'', ''Bearer tok'')]\<rparr>
         \<lparr>model = ''google-ai-studio/gemini-2.5'',
          messages = [\<lparr>role = ''user'', content = JStr ''hi''\<rparr>]\<rparr>
     \<in> set (snd (handler example_env)) \<and>
   (\<exists>body p. req_json example_env = Inr body \<and> destructure_prompt body = Inr p \<and> truthy p \<and>
         p \<noteq> JStr [] \<and> p \<noteq> JNull \<and> p \<noteq> JUndefined \<and>
         [\<lparr>role = ''user'', content = JStr ''hi''\<rparr>] = [\<lparr>role = ''user'', content = p\<rparr>]) \<and>
   req_json missing_prompt_env = Inr (JObj []) \<and>
   destructure_prompt (JObj []) = Inr JUndefined \<and> \<not> truthy JUndefined \<and>
   handler missing_prompt_env = (Inr (Json (JObj [(''error'', JStr ''No prompt provided'')]) 400), [])"
  using create_only_with_truthy_prompt [of
      "\<lparr>apiKey = ''unused'', baseURL = ''https://gateway.test/gw/compat'',
          defaultHeaders = [(''cf-aig-authorization'', ''Bearer tok'')]\<rparr>"
      "\<lparr>model = ''google-ai-studio/gemini-2.5'',
          messages = [\<lparr>role = ''user'', content = JStr ''hi''\<rparr>]\<rparr>"
      example_env missing_prompt_env "JObj []" JUndefined]
  by (simp add: example_env_trace missing_prompt_env_def destructure_prompt_def)

subsection \<open>The upstream request and the success path\<close>

text \<open>
  C7. For a validated request whose gateway URL resolves, the calls of the handler start
  with the resolution of the configured gateway identifier followed by one
  chat-completion request, and no other resolution or completion request follows. That
  request goes through a client whose API key is the placeholder \<^verbatim>\<open>unused\<close>, whose base
  URL is the resolved URL followed by \<^verbatim>\<open>/compat\<close> and whose \<^verbatim>\<open>cf-aig-authorization\<close>
  header is \<^verbatim>\<open>Bearer\<close> and the configured token; it names the fixed model
  \<^verbatim>\<open>google-ai-studio/gemini-2.5\<close> and carries exactly one message, of role
  \<^verbatim>\<open>user\<close>, whose content is the validated prompt.
\<close>

theorem upstream_request_shape:
  assumes "req_json e = Inr body" and "destructure_prompt body = Inr p" and "truthy p"
    and "getUrl e (AI_GATEWAY_ID e) = Inr url"
  shows "\<exists>rest. snd (handler e) =
           GatewayGetUrl (AI_GATEWAY_ID e) #
           CompletionsCreate
             \<lparr>apiKey = ''unused'', baseURL = url @ ''/compat'',
              defaultHeaders = [(''cf-aig-authorization'', ''Bearer '' @ AI_GATEWAY_TOKEN e)]\<rparr>
             \<lparr>model = ''google-ai-studio/gemini-2.5'',
              messages = [\<lparr>role = ''user'', content = p\<rparr>]\<rparr> # rest
         \<and> filter is_create rest = [] \<and> filter is_getUrl rest = []"
proof -
  have tb: "snd (try_body e p) =
       [GatewayGetUrl (AI_GATEWAY_ID e),
         CompletionsCreate (mk_client e (url @ ''/compat'')) (mk_request p)]"
    using assms(4) by (simp add: try_body_getUrl_ok)
  from handler_trace_valid [OF assms(1-3)]
  have "\<exists>rest. snd (handler e) = snd (try_body e p) @ rest \<and>
          filter is_create rest = [] \<and> filter is_getUrl rest = []"
    using catch_block_counts by fastforce
  then show ?thesis by (simp add: tb mk_client_def mk_request_def)
qed

theorem upstream_request_shape_witness:
  "req_json example_env = Inr (JObj [(''prompt'', JStr ''hi'')]) \<and>
   destructure_prompt (JObj [(''prompt'', JStr ''hi'')]) = Inr (JStr ''hi'') \<and>
   truthy (JStr ''hi'') \<and>
   getUrl example_env (AI_GATEWAY_ID example_env) = Inr ''https://gateway.test/gw'' \<and>
   (\<exists>rest. snd (handler example_env) =
           GatewayGetUrl ''gw'' #
           CompletionsCreate
             \<lparr>apiKey = ''unused'', baseURL = ''https://gateway.test/gw/compat'',
              defaultHeaders = [(''cf-aig-authorization'', ''Bearer tok'')]\<rparr>
             \<lparr>model = ''google-ai-studio/gemini-2.5'',
              messages = [\<lparr>role = ''user'', content = JStr ''hi''\<rparr>]\<rparr> # rest
         \<and> filter is_create rest = [] \<and> filter is_getUrl rest = [])"
  using upstream_request_shape [of example_env "JObj [(''prompt'', JStr ''hi'')]" "JStr ''hi''"
      "''https://gateway.test/gw''"]
  by (simp add: example_env_def destructure_prompt_def)




subsection \<open>The failure path\<close>














subsection \<open>One response per request\<close>





end
